theory Spec2Isabelle
  imports Main
begin

section \<open>Python values and exceptions\<close>

text \<open>
  The instrumentation receives arbitrary Python objects: the positional arguments of
  \<open>execute\<close>, \<open>executemany\<close> and \<open>callproc\<close>, the keyword arguments of
  \<open>connect\<close>, the value of a connection's \<open>cursor_factory\<close>. The values the
  code distinguishes are modelled by one datatype. Text is a \<open>string\<close>: one
  \<open>char\<close> per code point, so the model covers texts whose code points are below 256.
\<close>

text \<open>
  The exceptions that the modelled code and the Python built-ins it calls can raise.
  \<open>AttributeError\<close> is what \<open>setattr\<close> raises on an object that takes no new attribute.
  \<open>LibraryError\<close> stands for an exception of the client library (rendering a
  composed statement, connecting). \<open>Unmodelled\<close> is not a Python exception: it
  marks the inputs on which \<open>py_mod\<close> below does not describe Python's result.
\<close>

datatype exn =
  IndexError | TypeError | ValueError | AttributeError | LibraryError nat | Unmodelled

text \<open>The tracer provider handed to the instrumentor: \<open>None\<close>, or an object.\<close>

type_synonym tracer_provider = "nat option"

text \<open>
  \<open>DatabaseApiIntegration(name, database_system, connection_attributes=...,
  version=..., tracer_provider=...)\<close>: the integration context, with the arguments it
  was constructed from.
\<close>

datatype db_api =
  DatabaseApiIntegration string string "(string \<times> string) list" string tracer_provider

text \<open>\<open>CursorTracer(db_api)\<close>\<close>

datatype cursor_tracer = CursorTracer db_api

text \<open>
  Cursor classes. \<open>PgCursor\<close> is \<open>psycopg2.extensions.cursor\<close>;
  \<open>UserCursor k\<close> is a cursor class defined by the caller;
  \<open>TracedCursorFactory i base tracer\<close> is the class object that the \<open>i\<close>-th
  execution of the class statement in \<open>_new_cursor_factory\<close> creates: every execution
  creates a new class object, whose identity is \<open>i\<close>, with the base class and the
  \<open>_cursor_tracer\<close> of its closure.
\<close>

datatype cls =
  PgCursor
  | UserCursor nat
  | TracedCursorFactory nat cls cursor_tracer

text \<open>The parts of a \<open>psycopg2.sql.Composed\<close> object.\<close>

datatype composable =
  SQL string
  | Identifier "string list"
  | Placeholder "string option"
  | Literal int

datatype pyval =
  PyNone
  | PyBool bool
  | PyInt int
  | PyStr string
  | PyTuple "pyval list"
  | PyList "pyval list"
  | PyComposed "composable list"
  | PyClass cls

text \<open>Truth value of an object (\<open>if x\<close>, \<open>not x\<close>, \<open>x or y\<close>).\<close>

fun truthy :: "pyval \<Rightarrow> bool" where
  "truthy PyNone = False"
| "truthy (PyBool b) = b"
| "truthy (PyInt i) = (i \<noteq> 0)"
| "truthy (PyStr s) = (s \<noteq> [])"
| "truthy (PyTuple vs) = (vs \<noteq> [])"
| "truthy (PyList vs) = (vs \<noteq> [])"
| "truthy (PyComposed ps) = True"
| "truthy (PyClass c) = True"

text \<open>\<open>len(x)\<close>: a TypeError for an object without a length.\<close>

fun py_len :: "pyval \<Rightarrow> exn + nat" where
  "py_len (PyStr s) = Inr (length s)"
| "py_len (PyTuple vs) = Inr (length vs)"
| "py_len (PyList vs) = Inr (length vs)"
| "py_len PyNone = Inl TypeError"
| "py_len (PyBool b) = Inl TypeError"
| "py_len (PyInt i) = Inl TypeError"
| "py_len (PyComposed ps) = Inl TypeError"
| "py_len (PyClass c) = Inl TypeError"

subsection \<open>\<open>str.split()\<close>\<close>

text \<open>
  The characters \<open>str.split()\<close> without arguments splits at: the code points below 256
  for which \<open>str.isspace\<close> holds.
\<close>

definition is_space :: "char \<Rightarrow> bool" where
  "is_space c = (of_char c \<in> {9, 10, 11, 12, 13, 28, 29, 30, 31, 32, 133, 160 :: nat})"

definition not_space :: "char \<Rightarrow> bool" where
  "not_space c = (\<not> is_space c)"

text \<open>
  \<open>s.split()\<close>: the maximal runs of non-whitespace characters of \<open>s\<close>, in order;
  leading and trailing whitespace gives no empty string.
\<close>

function str_split :: "string \<Rightarrow> string list" where
  "str_split s =
     (case dropWhile is_space s of
        [] \<Rightarrow> []
      | c # cs \<Rightarrow> (c # takeWhile not_space cs) # str_split (dropWhile not_space cs))"
  by pat_completeness auto
termination
proof (relation "measure length")
  show "wf (measure length)" by simp
next
  fix s :: string and c cs
  assume "dropWhile is_space s = c # cs"
  then have "length (c # cs) \<le> length s"
    by (metis length_dropWhile_le)
  moreover have "length (dropWhile not_space cs) \<le> length cs"
    by (rule length_dropWhile_le)
  ultimately show "(dropWhile not_space cs, s) \<in> measure length"
    by simp
qed

declare str_split.simps [simp del]

subsection \<open>\<open>str(x)\<close> and the operator \<open>%\<close> on text\<close>

definition digit_char :: "nat \<Rightarrow> char" where
  "digit_char d = char_of (of_char CHR ''0'' + d)"

function str_of_nat :: "nat \<Rightarrow> string" where
  "str_of_nat n =
     (if n < 10 then [digit_char n] else str_of_nat (n div 10) @ [digit_char (n mod 10)])"
  by pat_completeness auto
termination
  by (relation "measure id") auto

declare str_of_nat.simps [simp del]

definition str_of_int :: "int \<Rightarrow> string" where
  "str_of_int i = (if i < 0 then CHR ''-'' # str_of_nat (nat (- i)) else str_of_nat (nat i))"

text \<open>
  \<open>str(x)\<close>, for the values on which the model gives it: \<open>None\<close>, booleans,
  integers and text. The text of a container needs \<open>repr\<close> of its elements and is
  left out (\<open>None\<close> here).
\<close>

fun py_str :: "pyval \<Rightarrow> string option" where
  "py_str PyNone = Some ''None''"
| "py_str (PyBool b) = Some (if b then ''True'' else ''False'')"
| "py_str (PyInt i) = Some (str_of_int i)"
| "py_str (PyStr s) = Some s"
| "py_str (PyTuple vs) = None"
| "py_str (PyList vs) = None"
| "py_str (PyComposed ps) = None"
| "py_str (PyClass c) = None"

text \<open>
  \<open>format % values\<close> on text (CPython's \<open>PyUnicode_Format\<close>), on the fragment with
  the conversions \<open>%s\<close> and \<open>%%\<close> written without flags, width, precision or
  mapping key. The format is read from the left; a character other than \<open>%\<close> is
  copied. After a \<open>%\<close>:
  \<^item> the end of the format raises ValueError (incomplete format);
  \<^item> \<open>%\<close> gives one \<open>%\<close> and takes no value;
  \<^item> a character that starts a mapping key, a flag, a width, a precision or a length
    modifier is outside the fragment;
  \<^item> otherwise the next value is taken first (TypeError when none is left: not
    enough arguments for format string), then \<open>s\<close> gives \<open>str\<close> of the value, another
    conversion of Python is outside the fragment, and any other character raises
    ValueError (unsupported format character).
  At the end of the format a value that is left raises TypeError (not all arguments
  converted) when \<open>chk\<close> holds.
\<close>

fun format_loop :: "bool \<Rightarrow> string \<Rightarrow> pyval list \<Rightarrow> exn + string" where
  "format_loop chk [] vs = (if chk \<and> vs \<noteq> [] then Inl TypeError else Inr [])"
| "format_loop chk (c # fmt) vs =
     (if c \<noteq> CHR ''%'' then map_sum id ((#) c) (format_loop chk fmt vs)
      else case fmt of
        [] \<Rightarrow> Inl ValueError
      | d # rest \<Rightarrow>
          if d = CHR ''%'' then map_sum id ((#) CHR ''%'') (format_loop chk rest vs)
          else if d \<in> set ''(-+ #0*123456789.hlL'' then Inl Unmodelled
          else (case vs of
            [] \<Rightarrow> Inl TypeError
          | v # vs' \<Rightarrow>
              if d = CHR ''s'' then
                (case py_str v of
                   None \<Rightarrow> Inl Unmodelled
                 | Some t \<Rightarrow> map_sum id ((@) t) (format_loop chk rest vs'))
              else if d \<in> set ''diouxXeEfFgGcra'' then Inl Unmodelled
              else Inl ValueError))"

text \<open>
  The operator \<open>%\<close>. With text on the left: a tuple on the right gives the values; any
  other object is the single value, and a list (a mapping for CPython) switches the
  final check off. Integer arithmetic is outside the fragment; no other left operand of
  \<open>pyval\<close> supports \<open>%\<close>.
\<close>

fun py_mod :: "pyval \<Rightarrow> pyval \<Rightarrow> exn + pyval" where
  "py_mod (PyStr f) (PyTuple vs) = map_sum id PyStr (format_loop True f vs)"
| "py_mod (PyStr f) (PyList vs) = map_sum id PyStr (format_loop False f [PyList vs])"
| "py_mod (PyStr f) v = map_sum id PyStr (format_loop True f [v])"
| "py_mod (PyInt i) v = (case v of PyInt j \<Rightarrow> Inl Unmodelled | PyBool b \<Rightarrow> Inl Unmodelled | _ \<Rightarrow> Inl TypeError)"
| "py_mod (PyBool a) v = (case v of PyInt j \<Rightarrow> Inl Unmodelled | PyBool b \<Rightarrow> Inl Unmodelled | _ \<Rightarrow> Inl TypeError)"
| "py_mod w v = Inl TypeError"

section \<open>Statement extraction: \<open>CursorTracer\<close>\<close>

text \<open>
  \<open>as_string\<close> is \<open>Composed.as_string(cursor)\<close> of the client library: it renders
  the parts with the cursor as context and returns the text, or raises.
  \<open>fmt\<close> is the operator \<open>%\<close> of Python (\<open>py_mod\<close> above on its fragment).
\<close>

text \<open>
  \<^verbatim>\<open>
  def get_operation_name(self, cursor, args):
      if not args:
          return ""
      statement = args[0]
      if isinstance(statement, Composed):
          statement = statement.as_string(cursor)
      if isinstance(statement, str):
          return statement.split()[0]
      return ""
  \<close>
\<close>

definition get_operation_name ::
  "(composable list \<Rightarrow> 'cur \<Rightarrow> exn + pyval) \<Rightarrow> 'cur \<Rightarrow> pyval list \<Rightarrow> exn + pyval" where
  "get_operation_name as_string cursor args =
     (case args of
        [] \<Rightarrow> Inr (PyStr [])
      | a # _ \<Rightarrow>
          (case (case a of PyComposed parts \<Rightarrow> as_string parts cursor | _ \<Rightarrow> Inr a) of
             Inl e \<Rightarrow> Inl e
           | Inr statement \<Rightarrow>
               (case statement of
                  PyStr s \<Rightarrow>
                    (case str_split s of
                       [] \<Rightarrow> Inl IndexError
                     | t # _ \<Rightarrow> Inr (PyStr t))
                | _ \<Rightarrow> Inr (PyStr []))))"

text \<open>
  \<^verbatim>\<open>
  def get_statement(self, cursor, args):
      if not args:
          return ""
      statement = args[0]
      if isinstance(statement, Composed):
          statement = statement.as_string(cursor)
      # Fix sql parameter placeholder(%s) to format sql parameters
      if len(args) >= 2 and len(args[1]) > 0:
          statement = statement % args[1]
      return statement
  \<close>
\<close>

definition get_statement ::
  "(composable list \<Rightarrow> 'cur \<Rightarrow> exn + pyval) \<Rightarrow> (pyval \<Rightarrow> pyval \<Rightarrow> exn + pyval) \<Rightarrow>
     'cur \<Rightarrow> pyval list \<Rightarrow> exn + pyval" where
  "get_statement as_string fmt cursor args =
     (case args of
        [] \<Rightarrow> Inr (PyStr [])
      | a # _ \<Rightarrow>
          (case (case a of PyComposed parts \<Rightarrow> as_string parts cursor | _ \<Rightarrow> Inr a) of
             Inl e \<Rightarrow> Inl e
           | Inr statement \<Rightarrow>
               if length args \<ge> 2 then
                 (case py_len (args ! 1) of
                    Inl e \<Rightarrow> Inl e
                  | Inr n \<Rightarrow> if n > 0 then fmt statement (args ! 1) else Inr statement)
               else Inr statement))"

text \<open>
  The first whitespace-delimited token of a text, as the specification words it: the
  maximal run of non-whitespace characters after the leading whitespace, when the text
  has a non-whitespace character at all.
\<close>

definition first_token :: "string \<Rightarrow> string option" where
  "first_token s =
     (let rest = dropWhile is_space s
      in if rest = [] then None else Some (takeWhile not_space rest))"

text \<open>
  The statement after the resolution of a composed object, the first step of both
  functions: \<open>statement = args[0]\<close>, rendered with \<open>as_string(cursor)\<close> when it is a
  \<open>Composed\<close>.
\<close>

definition resolved ::
  "(composable list \<Rightarrow> 'cur \<Rightarrow> exn + pyval) \<Rightarrow> 'cur \<Rightarrow> pyval \<Rightarrow> exn + pyval" where
  "resolved as_string cursor a =
     (case a of PyComposed parts \<Rightarrow> as_string parts cursor | _ \<Rightarrow> Inr a)"

text \<open>\<open>isinstance(v, str)\<close>\<close>

fun is_text :: "pyval \<Rightarrow> bool" where
  "is_text (PyStr s) = True"
| "is_text v = False"

section \<open>The traced cursor factory\<close>

text \<open>
  The constants of the module. \<open>__version__\<close> comes from \<open>version.py\<close>, which is not
  part of the sources at hand: the functions below take it as the parameter \<open>ver\<close>.
\<close>

definition name_of_module :: string where
  "name_of_module = ''opentelemetry.instrumentation.psycopg2''"

definition OTEL_CURSOR_FACTORY_KEY :: string where
  "OTEL_CURSOR_FACTORY_KEY = ''_otel_orig_cursor_factory''"

definition CONNECTION_ATTRIBUTES :: "(string \<times> string) list" where
  "CONNECTION_ATTRIBUTES =
     [(''database'', ''info.dbname''), (''port'', ''info.port''),
      (''host'', ''info.host''), (''user'', ''info.user'')]"

definition DATABASE_SYSTEM :: string where
  "DATABASE_SYSTEM = ''postgresql''"

text \<open>
  \<^verbatim>\<open>
  def _new_cursor_factory(db_api=None, base_factory=None, tracer_provider=None):
      if not db_api:
          db_api = DatabaseApiIntegration(
              __name__,
              Psycopg2Instrumentor._DATABASE_SYSTEM,
              connection_attributes=Psycopg2Instrumentor._CONNECTION_ATTRIBUTES,
              version=__version__,
              tracer_provider=tracer_provider,
          )
      base_factory = base_factory or pg_cursor
      _cursor_tracer = CursorTracer(db_api)
      class TracedCursorFactory(base_factory):
          ...
      return TracedCursorFactory
  \<close>
  The state is the number of class objects that the class statement has created so far.
  A base that is not a class makes the class statement raise TypeError.
\<close>

definition new_cursor_factory ::
  "string \<Rightarrow> db_api option \<Rightarrow> pyval \<Rightarrow> tracer_provider \<Rightarrow> nat \<Rightarrow> exn + (cls \<times> nat)" where
  "new_cursor_factory ver db_api base_factory tracer_provider n =
     (let db_api' =
            (case db_api of
               None \<Rightarrow>
                 DatabaseApiIntegration name_of_module DATABASE_SYSTEM CONNECTION_ATTRIBUTES
                   ver tracer_provider
             | Some d \<Rightarrow> d);
          base_factory' = (if truthy base_factory then base_factory else PyClass PgCursor);
          cursor_tracer = CursorTracer db_api'
      in case base_factory' of
           PyClass base \<Rightarrow> Inr (TracedCursorFactory n base cursor_tracer, Suc n)
         | _ \<Rightarrow> Inl TypeError)"

text \<open>
  The methods of a cursor class, as attribute lookup finds them.
  \<^verbatim>\<open>
      class TracedCursorFactory(base_factory):
          def execute(self, *args, **kwargs):
              return _cursor_tracer.traced_execution(
                  self, super().execute, *args, **kwargs
              )
          def executemany(self, *args, **kwargs): ...   # super().executemany
          def callproc(self, *args, **kwargs): ...      # super().callproc
  \<close>
  \<open>Defined c m\<close> is the implementation of \<open>m\<close> that a class other than a traced
  factory provides; \<open>TracedExecution tracer f\<close> is
  \<open>tracer.traced_execution(self, f, *args, **kwargs)\<close>. Any other method of a traced
  factory is inherited from its base.
\<close>

datatype method_name = Execute | Executemany | Callproc | OtherMethod string

datatype impl = Defined cls method_name | TracedExecution cursor_tracer impl

fun is_traced_method :: "method_name \<Rightarrow> bool" where
  "is_traced_method Execute = True"
| "is_traced_method Executemany = True"
| "is_traced_method Callproc = True"
| "is_traced_method (OtherMethod m) = False"

fun resolve_method :: "cls \<Rightarrow> method_name \<Rightarrow> impl" where
  "resolve_method PgCursor m = Defined PgCursor m"
| "resolve_method (UserCursor k) m = Defined (UserCursor k) m"
| "resolve_method (TracedCursorFactory i base tracer) m =
     (if is_traced_method m then TracedExecution tracer (resolve_method base m)
      else resolve_method base m)"

section \<open>Instrumenting connections\<close>

text \<open>
  A connection object: its \<open>cursor_factory\<close> attribute, the attributes that
  \<open>setattr\<close> has added to it, and whether it has an instance dictionary to take a new
  attribute at all. An instance of a Python class has one; an instance of the stock
  \<open>psycopg2.extensions.connection\<close>, a type written in C, has none, and
  \<open>setattr\<close> with a new name raises AttributeError on it, while \<open>getattr\<close> with a
  default gives the default.
\<close>

record connection =
  cursor_factory :: pyval
  attrs :: "string \<rightharpoonup> pyval"
  has_instance_dict :: bool

text \<open>
  \<^verbatim>\<open>
  def instrument_connection(self, connection, tracer_provider=None):
      setattr(connection, _OTEL_CURSOR_FACTORY_KEY, connection.cursor_factory)
      connection.cursor_factory = _new_cursor_factory(tracer_provider=tracer_provider)
      return connection
  \<close>
  The connection is changed in place and returned: the model returns the changed
  connection, with the new number of class objects. \<open>setattr\<close> comes first: on a
  connection without an instance dictionary it raises AttributeError, and nothing has
  been changed.
\<close>

definition instrument_connection ::
  "string \<Rightarrow> connection \<Rightarrow> tracer_provider \<Rightarrow> nat \<Rightarrow> exn + (connection \<times> nat)" where
  "instrument_connection ver connection tracer_provider n =
     (if \<not> has_instance_dict connection then Inl AttributeError
      else
        let connection1 =
              connection\<lparr>attrs := (attrs connection)
                (OTEL_CURSOR_FACTORY_KEY \<mapsto> cursor_factory connection)\<rparr>
        in case new_cursor_factory ver None PyNone tracer_provider n of
             Inl e \<Rightarrow> Inl e
           | Inr (factory, n') \<Rightarrow> Inr (connection1\<lparr>cursor_factory := PyClass factory\<rparr>, n'))"

text \<open>
  \<^verbatim>\<open>
  def uninstrument_connection(self, connection):
      connection.cursor_factory = getattr(connection, _OTEL_CURSOR_FACTORY_KEY, None)
      return connection
  \<close>
\<close>

definition uninstrument_connection :: "connection \<Rightarrow> connection" where
  "uninstrument_connection connection =
     connection\<lparr>cursor_factory :=
       (case attrs connection OTEL_CURSOR_FACTORY_KEY of None \<Rightarrow> PyNone | Some v \<Rightarrow> v)\<rparr>"

text \<open>
  \<^verbatim>\<open>
  def wrapped_connection(self, connect_method, args, kwargs):
      base_cursor_factory = kwargs.pop("cursor_factory", None)
      new_factory_kwargs = {"db_api": self}
      if base_cursor_factory:
          new_factory_kwargs["base_factory"] = base_cursor_factory
      kwargs["cursor_factory"] = _new_cursor_factory(**new_factory_kwargs)
      connection = connect_method(*args, **kwargs)
      self.get_connection_attributes(connection)
      return connection
  \<close>
  \<open>connect_method\<close> is the connect function of the client library and
  \<open>get_connection_attributes\<close> a method that \<open>DatabaseApiIntegration\<close> inherits from
  the dbapi instrumentation; neither is in the sources at hand, so both are parameters,
  acting on a state \<open>'s\<close> of their own and free to raise.
\<close>

definition wrapped_connection ::
  "string \<Rightarrow> db_api \<Rightarrow> (pyval list \<Rightarrow> (string \<rightharpoonup> pyval) \<Rightarrow> 's \<Rightarrow> exn + ('c \<times> 's)) \<Rightarrow>
     (db_api \<Rightarrow> 'c \<Rightarrow> 's \<Rightarrow> exn + 's) \<Rightarrow> pyval list \<Rightarrow> (string \<rightharpoonup> pyval) \<Rightarrow> nat \<times> 's \<Rightarrow>
     exn + ('c \<times> nat \<times> 's)" where
  "wrapped_connection ver self connect_method get_connection_attributes args kwargs st =
     (let base_cursor_factory =
            (case kwargs ''cursor_factory'' of None \<Rightarrow> PyNone | Some v \<Rightarrow> v);
          kwargs1 = kwargs(''cursor_factory'' := None);
          base_factory = (if truthy base_cursor_factory then base_cursor_factory else PyNone)
      in case new_cursor_factory ver (Some self) base_factory None (fst st) of
           Inl e \<Rightarrow> Inl e
         | Inr (factory, n') \<Rightarrow>
             (case connect_method args (kwargs1(''cursor_factory'' \<mapsto> PyClass factory)) (snd st) of
                Inl e \<Rightarrow> Inl e
              | Inr (connection, s') \<Rightarrow>
                  (case get_connection_attributes self connection s' of
                     Inl e \<Rightarrow> Inl e
                   | Inr s'' \<Rightarrow> Inr (connection, n', s''))))"

subsection \<open>Sequences of calls on one connection\<close>

datatype call = Instrument tracer_provider | Uninstrument

fun apply_call :: "string \<Rightarrow> call \<Rightarrow> connection \<times> nat \<Rightarrow> exn + (connection \<times> nat)" where
  "apply_call ver (Instrument tp) (c, n) = instrument_connection ver c tp n"
| "apply_call ver Uninstrument (c, n) = Inr (uninstrument_connection c, n)"

fun run_calls :: "string \<Rightarrow> call list \<Rightarrow> connection \<times> nat \<Rightarrow> exn + (connection \<times> nat)" where
  "run_calls ver [] st = Inr st"
| "run_calls ver (x # xs) st =
     (case apply_call ver x st of Inl e \<Rightarrow> Inl e | Inr st' \<Rightarrow> run_calls ver xs st')"

fun is_instrument :: "call \<Rightarrow> bool" where
  "is_instrument (Instrument tp) = True"
| "is_instrument Uninstrument = False"

text \<open>A value is a traced cursor factory.\<close>

fun is_traced_factory :: "pyval \<Rightarrow> bool" where
  "is_traced_factory (PyClass (TracedCursorFactory i base tracer)) = True"
| "is_traced_factory v = False"



text \<open>
  The marker invariant as the specification words it, for a connection \<open>c\<close> reached
  from the connection \<open>c0\<close>: the marker present, the current \<open>cursor_factory\<close> is a
  traced factory; the marker absent, the connection is as it was.
\<close>

definition marker_invariant :: "connection \<Rightarrow> connection \<Rightarrow> bool" where
  "marker_invariant c0 c =
     (case attrs c OTEL_CURSOR_FACTORY_KEY of
        Some v \<Rightarrow> is_traced_factory (cursor_factory c)
      | None \<Rightarrow> c = c0)"

text \<open>
  The invariant that the code keeps: the marker present, the current
  \<open>cursor_factory\<close> is a traced factory or the value saved under the marker; the marker
  absent, the connection is as it was, or as it was but for its \<open>cursor_factory\<close>, which
  is \<open>None\<close>.
\<close>

definition marker_invariant_kept :: "connection \<Rightarrow> connection \<Rightarrow> bool" where
  "marker_invariant_kept c0 c =
     (case attrs c OTEL_CURSOR_FACTORY_KEY of
        Some v \<Rightarrow> is_traced_factory (cursor_factory c) \<or> cursor_factory c = v
      | None \<Rightarrow> c = c0 \<or> c = c0\<lparr>cursor_factory := PyNone\<rparr>)"

section \<open>Properties of the statement extraction\<close>

subsection \<open>Splitting and the first token\<close>

lemma hd_dropWhile_not_space:
  assumes "dropWhile is_space s = c # cs"
  shows "not_space c"
proof -
  have "\<not> is_space (hd (dropWhile is_space s))"
    using assms hd_dropWhile [of is_space s] by simp
  then show ?thesis using assms by (simp add: not_space_def)
qed

lemma str_split_first_token:
  assumes "first_token s = Some t"
  shows "\<exists>ts. str_split s = t # ts"
proof (cases "dropWhile is_space s")
  case Nil
  then show ?thesis using assms by (simp add: first_token_def)
next
  case (Cons c cs)
  then have "not_space c" by (rule hd_dropWhile_not_space)
  then have "t = c # takeWhile not_space cs"
    using assms Cons by (simp add: first_token_def)
  then show ?thesis
    using Cons by (simp add: str_split.simps [of s])
qed

lemma str_split_no_token:
  assumes "first_token s = None"
  shows "str_split s = []"
proof -
  have d: "dropWhile is_space s = []"
    using assms by (simp add: first_token_def Let_def split: if_splits)
  show ?thesis unfolding str_split.simps [of s] d by simp
qed

lemma first_token_shape:
  assumes "first_token s = Some t"
  shows "s = takeWhile is_space s @ t @ dropWhile not_space (dropWhile is_space s)
    \<and> list_all is_space (takeWhile is_space s) \<and> t \<noteq> [] \<and> list_all not_space t
    \<and> (dropWhile not_space (dropWhile is_space s) = []
       \<or> is_space (hd (dropWhile not_space (dropWhile is_space s))))"
proof -
  let ?r = "dropWhile is_space s"
  from assms have r: "?r \<noteq> []" and t: "t = takeWhile not_space ?r"
    by (auto simp: first_token_def Let_def split: if_splits)
  obtain c cs where cs: "?r = c # cs" using r by (cases ?r) auto
  then have "not_space c" by (rule hd_dropWhile_not_space)
  then have "t \<noteq> []" using t cs by simp
  moreover have "s = takeWhile is_space s @ t @ dropWhile not_space ?r"
    using t by simp
  moreover have "list_all is_space (takeWhile is_space s)"
    by (simp add: list_all_iff) (meson set_takeWhileD)
  moreover have "list_all not_space t"
    unfolding t by (simp add: list_all_iff) (meson set_takeWhileD)
  moreover have "dropWhile not_space ?r = [] \<or> is_space (hd (dropWhile not_space ?r))"
  proof (cases "dropWhile not_space ?r = []")
    case False
    then have "\<not> not_space (hd (dropWhile not_space ?r))" by (rule hd_dropWhile)
    then show ?thesis by (simp add: not_space_def)
  qed simp
  ultimately show ?thesis by blast
qed

lemma get_operation_name_resolved:
  "get_operation_name as_string cursor (a # rest) =
     (case resolved as_string cursor a of
        Inl e \<Rightarrow> Inl e
      | Inr statement \<Rightarrow>
          (case statement of
             PyStr s \<Rightarrow> (case str_split s of [] \<Rightarrow> Inl IndexError | t # _ \<Rightarrow> Inr (PyStr t))
           | _ \<Rightarrow> Inr (PyStr [])))"
  by (simp add: get_operation_name_def resolved_def)

lemma get_statement_resolved:
  "get_statement as_string fmt cursor (a # p # rest) =
     (case resolved as_string cursor a of
        Inl e \<Rightarrow> Inl e
      | Inr statement \<Rightarrow>
          (case py_len p of
             Inl e \<Rightarrow> Inl e
           | Inr n \<Rightarrow> if n > 0 then fmt statement p else Inr statement))"
  by (simp add: get_statement_def resolved_def split: sum.splits)

subsection \<open>The operation name\<close>

lemma get_operation_name_no_token:
  assumes "resolved as_string cursor a = Inr (PyStr s)"
    and "first_token s = None"
  shows "get_operation_name as_string cursor (a # rest) = Inl IndexError"
  using assms by (simp add: get_operation_name_resolved str_split_no_token)

text \<open>
  Claim C1 (statement extraction is total). \<open>get_operation_name\<close> does not return
  for every tuple of arguments: on a text statement without any token, the empty text
  or a text of whitespace only, \<open>statement.split()\<close> is the empty list and
  \<open>statement.split()[0]\<close> raises IndexError, whatever the cursor is.
\<close>

theorem get_operation_name_empty_text_raises:
  "get_operation_name as_string cursor [PyStr ''''] = Inl IndexError
   \<and> get_operation_name as_string cursor [PyStr ''  ''] = Inl IndexError"
  by (simp add: get_operation_name_def str_split.simps is_space_def)

text \<open>
  Claim C6, amended (the operation name is the first token). When the first argument
  is, or resolves to, a text that has a first whitespace-delimited token,
  \<open>get_operation_name\<close> returns that token, whatever arguments follow. The token is
  cut out of the text unchanged, so its case is preserved: the text is leading
  whitespace, then the token, which is not empty and has no whitespace in it, then
  nothing or a remainder that starts with whitespace.
\<close>

theorem get_operation_name_first_token:
  assumes "resolved as_string cursor a = Inr (PyStr s)"
    and "first_token s = Some t"
  shows "get_operation_name as_string cursor (a # rest) = Inr (PyStr t)
    \<and> (\<exists>pre post. s = pre @ t @ post \<and> list_all is_space pre \<and> t \<noteq> []
          \<and> list_all not_space t \<and> (post = [] \<or> is_space (hd post)))"
proof -
  obtain ts where "str_split s = t # ts"
    using assms(2) str_split_first_token by blast
  then have "get_operation_name as_string cursor (a # rest) = Inr (PyStr t)"
    using assms(1) by (simp add: get_operation_name_resolved)
  moreover have "\<exists>pre post. s = pre @ t @ post \<and> list_all is_space pre \<and> t \<noteq> []
          \<and> list_all not_space t \<and> (post = [] \<or> is_space (hd post))"
    using first_token_shape [OF assms(2)] by blast
  ultimately show ?thesis by blast
qed

theorem get_operation_name_first_token_witness:
  "resolved (\<lambda>parts cur. Inr (PyStr ''select 1'')) () (PyStr ''SELECT * FROM t'')
     = Inr (PyStr ''SELECT * FROM t'')
   \<and> first_token ''SELECT * FROM t'' = Some ''SELECT''
   \<and> get_operation_name (\<lambda>parts cur. Inr (PyStr ''select 1'')) ()
        [PyStr ''SELECT * FROM t''] = Inr (PyStr ''SELECT'')
   \<and> get_operation_name (\<lambda>parts cur. Inr (PyStr ''select 1'')) ()
        [PyComposed [SQL ''select '', Literal 1]] = Inr (PyStr ''select'')"
proof -
  let ?as = "\<lambda>(parts :: composable list) (cur :: unit). (Inr (PyStr ''select 1'') :: exn + pyval)"
  have r: "resolved ?as () (PyStr ''SELECT * FROM t'') = Inr (PyStr ''SELECT * FROM t'')"
    by (simp add: resolved_def)
  have t: "first_token ''SELECT * FROM t'' = Some ''SELECT''"
    by (simp add: first_token_def is_space_def not_space_def)
  have r2: "resolved ?as () (PyComposed [SQL ''select '', Literal 1]) = Inr (PyStr ''select 1'')"
    by (simp add: resolved_def)
  have t2: "first_token ''select 1'' = Some ''select''"
    by (simp add: first_token_def is_space_def not_space_def)
  show ?thesis
    using r t get_operation_name_first_token [OF r t, of "[]"]
      get_operation_name_first_token [OF r2 t2, of "[]"]
    by simp
qed

text \<open>
  The claim C6 as it is written, for every text statement, fails on the empty text:
  there is no first token, and no operation name is returned.
\<close>

theorem get_operation_name_no_token_counterexample:
  "get_operation_name (\<lambda>parts cur. Inr (PyStr ''select 1'')) () [PyStr ''''] = Inl IndexError"
  by (simp add: get_operation_name_def str_split.simps)

text \<open>
  Claim C8 (the empty operation name). \<open>get_operation_name\<close> returns the empty text
  when there is no argument, and when the first argument, after the resolution of a
  composed statement, is not text, whatever arguments follow.
\<close>

theorem get_operation_name_empty:
  "get_operation_name as_string cursor [] = Inr (PyStr '''')
   \<and> (resolved as_string cursor a = Inr v \<longrightarrow> \<not> is_text v \<longrightarrow>
        get_operation_name as_string cursor (a # rest) = Inr (PyStr ''''))"
proof -
  have "get_operation_name as_string cursor [] = Inr (PyStr '''')"
    by (simp add: get_operation_name_def)
  moreover have "get_operation_name as_string cursor (a # rest) = Inr (PyStr '''')"
    if "resolved as_string cursor a = Inr v" and "\<not> is_text v"
    using that by (cases v) (simp_all add: get_operation_name_resolved)
  ultimately show ?thesis by blast
qed

theorem get_operation_name_empty_witness:
  "get_operation_name (\<lambda>parts cur. Inr (PyStr ''select 1'')) () [] = Inr (PyStr '''')
   \<and> resolved (\<lambda>parts cur. Inr (PyStr ''select 1'')) () (PyInt 5) = Inr (PyInt 5)
   \<and> \<not> is_text (PyInt 5)
   \<and> get_operation_name (\<lambda>parts cur. Inr (PyStr ''select 1'')) () [PyInt 5, PyTuple []]
       = Inr (PyStr '''')"
proof -
  let ?as = "\<lambda>(parts :: composable list) (cur :: unit). (Inr (PyStr ''select 1'') :: exn + pyval)"
  have r: "resolved ?as () (PyInt 5) = Inr (PyInt 5)"
    by (simp add: resolved_def)
  have n: "\<not> is_text (PyInt 5)" by simp
  show ?thesis
    using r n get_operation_name_empty [of ?as "()" "PyInt 5" "PyInt 5" "[PyTuple []]"]
    by simp
qed

subsection \<open>The statement text\<close>

lemma str_of_int_123: "str_of_int 123 = ''123''"
  by code_simp

lemma format_loop_copy:
  assumes "CHR ''%'' \<notin> set pre"
  shows "format_loop chk (pre @ f) vs = map_sum id ((@) pre) (format_loop chk f vs)"
  using assms
proof (induction pre)
  case Nil
  show ?case by (cases "format_loop chk f vs") simp_all
next
  case (Cons c pre)
  have c: "c \<noteq> CHR ''%''"
    using Cons.prems by auto
  have ih: "format_loop chk (pre @ f) vs = map_sum id ((@) pre) (format_loop chk f vs)"
    using Cons.prems by (intro Cons.IH) simp
  show ?case
    using c ih by (cases "format_loop chk f vs") simp_all
qed

lemma format_loop_placeholders:
  assumes "\<forall>piece \<in> set (pre # ps). CHR ''%'' \<notin> set piece"
    and "map py_str vs = map Some ts"
    and "length ts = length ps"
  shows "format_loop True (pre @ concat (map (\<lambda>piece. ''%s'' @ piece) ps)) vs
    = Inr (pre @ concat (map (\<lambda>(t, piece). t @ piece) (zip ts ps)))"
  using assms
proof (induction ps arbitrary: pre vs ts)
  case Nil
  then show ?case
    using format_loop_copy [of pre True "[]" vs] by simp
next
  case (Cons piece ps)
  then obtain t ts' where ts: "ts = t # ts'" by (cases ts) auto
  with Cons.prems obtain v vs' where vs: "vs = v # vs'" and v: "py_str v = Some t"
    and rest: "map py_str vs' = map Some ts'"
    by (cases vs) auto
  have ih: "format_loop True (piece @ concat (map (\<lambda>piece. ''%s'' @ piece) ps)) vs'
    = Inr (piece @ concat (map (\<lambda>(t, piece). t @ piece) (zip ts' ps)))"
    using Cons.prems ts rest by (intro Cons.IH) auto
  have pre: "CHR ''%'' \<notin> set pre" using Cons.prems by simp
  show ?case
    using ih v by (simp add: format_loop_copy [OF pre] ts vs)
qed

lemma py_mod_placeholders:
  assumes "\<forall>piece \<in> set (pre # ps). CHR ''%'' \<notin> set piece"
    and "map py_str vs = map Some ts"
    and "length ts = length ps"
  shows "py_mod (PyStr (pre @ concat (map (\<lambda>piece. ''%s'' @ piece) ps))) (PyTuple vs)
    = Inr (PyStr (pre @ concat (map (\<lambda>(t, piece). t @ piece) (zip ts ps))))"
  using format_loop_placeholders [OF assms] by simp

text \<open>
  Claim C2, amended (a failing substitution). \<open>get_statement\<close> has no handler around
  the substitution: when a second argument with a positive length is present and
  \<open>statement % args[1]\<close> raises, \<open>get_statement\<close> raises that exception, for every
  behaviour of the operator \<open>%\<close>.
\<close>

theorem get_statement_failure_propagates:
  assumes "resolved as_string cursor a = Inr statement"
    and "py_len p = Inr n" and "0 < n"
    and "fmt statement p = Inl e"
  shows "get_statement as_string fmt cursor (a # p # rest) = Inl e"
  using assms by (simp add: get_statement_resolved)

theorem get_statement_failure_propagates_witness:
  "resolved (\<lambda>parts cur. Inr (PyStr ''select 1'')) () (PyStr ''SELECT 100%'')
     = Inr (PyStr ''SELECT 100%'')
   \<and> py_len (PyTuple [PyInt 1]) = Inr 1
   \<and> py_mod (PyStr ''SELECT 100%'') (PyTuple [PyInt 1]) = Inl ValueError
   \<and> get_statement (\<lambda>parts cur. Inr (PyStr ''select 1'')) py_mod ()
        [PyStr ''SELECT 100%'', PyTuple [PyInt 1]] = Inl ValueError"
proof -
  let ?as = "\<lambda>(parts :: composable list) (cur :: unit). (Inr (PyStr ''select 1'') :: exn + pyval)"
  have r: "resolved ?as () (PyStr ''SELECT 100%'') = Inr (PyStr ''SELECT 100%'')"
    by (simp add: resolved_def)
  have l: "py_len (PyTuple [PyInt 1]) = Inr 1" by simp
  have f: "py_mod (PyStr ''SELECT 100%'') (PyTuple [PyInt 1]) = Inl ValueError" by simp
  show ?thesis
    using r l f get_statement_failure_propagates [where fmt = py_mod and rest = "[]", OF r l _ f]
    by simp
qed

text \<open>
  The claim C2 as it is written fails on a statement with a literal \<open>%\<close>: the
  character after \<open>a%\<close> is no conversion, the substitution raises ValueError, and so does
  \<open>get_statement\<close>.
\<close>

theorem get_statement_literal_percent_counterexample:
  "get_statement (\<lambda>parts cur. Inr (PyStr ''select 1'')) py_mod ()
     [PyStr ''SELECT * FROM t WHERE n LIKE 'a%' AND id = %s'', PyTuple [PyInt 1]]
   = Inl ValueError"
  by (simp add: get_statement_def)

text \<open>
  Claim C7 (substitution of the parameters). When the first argument is, or resolves
  to, a text and the second argument has a positive length, \<open>get_statement\<close> returns
  what \<open>statement % args[1]\<close> returns, when that succeeds. In particular, for a text
  made of pieces without \<open>%\<close> joined by \<open>%s\<close> placeholders, and a tuple of as many
  parameters, it returns the text with each placeholder replaced by \<open>str\<close> of its
  parameter. For a composed statement rendered as
  \<open>INSERT INTO test (testField) VALUES (%s)\<close> and the parameters \<open>(123,)\<close> this is
  \<open>INSERT INTO test (testField) VALUES (123)\<close>.
\<close>

theorem get_statement_substitutes:
  assumes "resolved as_string cursor a = Inr (PyStr s)"
    and "py_len p = Inr n" and "0 < n"
  shows "(fmt (PyStr s) p = Inr r \<longrightarrow>
            get_statement as_string fmt cursor (a # p # rest) = Inr r)
    \<and> ((\<forall>piece \<in> set (pre # ps). CHR ''%'' \<notin> set piece)
         \<and> s = pre @ concat (map (\<lambda>piece. ''%s'' @ piece) ps)
         \<and> p = PyTuple vs \<and> map py_str vs = map Some ts \<and> length ts = length ps \<longrightarrow>
            get_statement as_string py_mod cursor (a # p # rest)
              = Inr (PyStr (pre @ concat (map (\<lambda>(t, piece). t @ piece) (zip ts ps)))))"
proof -
  have sub: "get_statement as_string f cursor (a # p # rest) = f (PyStr s) p" for f
    using assms by (simp add: get_statement_resolved)
  show ?thesis
    using sub [of fmt] sub [of py_mod] py_mod_placeholders [of pre ps vs ts]
    by auto
qed

theorem get_statement_substitutes_witness:
  "resolved (\<lambda>parts cur. Inr (PyStr ''INSERT INTO test (testField) VALUES (%s)'')) ()
      (PyComposed [SQL ''INSERT INTO test (testField) VALUES ('', Placeholder None, SQL '')''])
     = Inr (PyStr ''INSERT INTO test (testField) VALUES (%s)'')
   \<and> py_len (PyTuple [PyInt 123]) = Inr 1
   \<and> py_mod (PyStr ''INSERT INTO test (testField) VALUES (%s)'') (PyTuple [PyInt 123])
       = Inr (PyStr ''INSERT INTO test (testField) VALUES (123)'')
   \<and> map py_str [PyInt 123] = map Some [''123'']
   \<and> get_statement (\<lambda>parts cur. Inr (PyStr ''INSERT INTO test (testField) VALUES (%s)'')) py_mod ()
        [PyComposed [SQL ''INSERT INTO test (testField) VALUES ('', Placeholder None, SQL '')''],
         PyTuple [PyInt 123]]
       = Inr (PyStr ''INSERT INTO test (testField) VALUES (123)'')"
proof -
  let ?as = "\<lambda>(parts :: composable list) (cur :: unit).
    (Inr (PyStr ''INSERT INTO test (testField) VALUES (%s)'') :: exn + pyval)"
  let ?c = "PyComposed [SQL ''INSERT INTO test (testField) VALUES ('', Placeholder None, SQL '')'']"
  have r: "resolved ?as () ?c = Inr (PyStr ''INSERT INTO test (testField) VALUES (%s)'')"
    by (simp add: resolved_def)
  have l: "py_len (PyTuple [PyInt 123]) = Inr 1" by simp
  have z: "0 < (1::nat)" by simp
  have f: "py_mod (PyStr ''INSERT INTO test (testField) VALUES (%s)'') (PyTuple [PyInt 123])
       = Inr (PyStr ''INSERT INTO test (testField) VALUES (123)'')"
    by (simp add: str_of_int_123)
  have m: "map py_str [PyInt 123] = map Some [''123'']"
    by (simp add: str_of_int_123)
  show ?thesis
    using r l f m get_statement_substitutes
      [where fmt = py_mod and rest = "[]" and pre = "''INSERT INTO test (testField) VALUES (''"
         and ps = "['')'']" and vs = "[PyInt 123]" and ts = "[''123'']"
         and r = "PyStr ''INSERT INTO test (testField) VALUES (123)''", OF r l z]
    by simp
qed

section \<open>Properties of the instrumentation of connections\<close>

subsection \<open>What the calls return\<close>

lemma new_cursor_factory_default:
  "new_cursor_factory ver None PyNone tp n =
     Inr (TracedCursorFactory n PgCursor
            (CursorTracer (DatabaseApiIntegration name_of_module DATABASE_SYSTEM
               CONNECTION_ATTRIBUTES ver tp)), Suc n)"
  by (simp add: new_cursor_factory_def)

lemma instrument_connection_returns:
  assumes "has_instance_dict c"
  shows "instrument_connection ver c tp n =
     Inr (c\<lparr>attrs := (attrs c)(OTEL_CURSOR_FACTORY_KEY \<mapsto> cursor_factory c),
            cursor_factory := PyClass (TracedCursorFactory n PgCursor
              (CursorTracer (DatabaseApiIntegration name_of_module DATABASE_SYSTEM
                 CONNECTION_ATTRIBUTES ver tp)))\<rparr>, Suc n)"
  using assms by (simp add: instrument_connection_def new_cursor_factory_default)

lemma instrument_connection_raises:
  assumes "\<not> has_instance_dict c"
  shows "instrument_connection ver c tp n = Inl AttributeError"
  using assms by (simp add: instrument_connection_def)

lemma new_cursor_factory_base:
  "new_cursor_factory ver (Some self) (PyClass base) None n =
     Inr (TracedCursorFactory n base (CursorTracer self), Suc n)"
  by (simp add: new_cursor_factory_def)

lemma new_cursor_factory_no_base:
  "new_cursor_factory ver (Some self) PyNone None n =
     Inr (TracedCursorFactory n PgCursor (CursorTracer self), Suc n)"
  by (simp add: new_cursor_factory_def)



lemma traced_factory_not_base: "TracedCursorFactory i base tracer \<noteq> base"
  by (induction base arbitrary: i tracer) auto

lemma run_calls_append:
  "run_calls ver (xs @ ys) st =
     (case run_calls ver xs st of Inl e \<Rightarrow> Inl e | Inr st' \<Rightarrow> run_calls ver ys st')"
  by (induction xs arbitrary: st) (auto split: sum.splits)

lemma marker_kept_after_instrument:
  assumes "instrument_connection ver c tp n = Inr (c', n')"
  shows "marker_invariant_kept c0 c' \<and> attrs c' OTEL_CURSOR_FACTORY_KEY \<noteq> None
    \<and> has_instance_dict c' = has_instance_dict c"
proof (cases "has_instance_dict c")
  case True
  then show ?thesis
    using assms by (auto simp: instrument_connection_returns marker_invariant_kept_def)
next
  case False
  then show ?thesis
    using assms by (simp add: instrument_connection_raises)
qed

lemma marker_kept_after_uninstrument:
  assumes "marker_invariant_kept c0 c"
  shows "marker_invariant_kept c0 (uninstrument_connection c)
   \<and> attrs (uninstrument_connection c) OTEL_CURSOR_FACTORY_KEY = attrs c OTEL_CURSOR_FACTORY_KEY
   \<and> has_instance_dict (uninstrument_connection c) = has_instance_dict c"
  using assms
  by (auto simp: uninstrument_connection_def marker_invariant_kept_def split: option.splits)

subsection \<open>Instrumenting and uninstrumenting one connection\<close>







text \<open>
  Claim C10 (uninstrumenting a connection that was never instrumented). Without the
  marker, \<open>uninstrument_connection\<close> returns the connection it was given with its
  \<open>cursor_factory\<close> set to \<open>None\<close> and nothing else changed: a cursor factory that the
  caller had configured is lost.
\<close>

theorem uninstrument_connection_without_marker:
  assumes "attrs c OTEL_CURSOR_FACTORY_KEY = None"
  shows "uninstrument_connection c = c\<lparr>cursor_factory := PyNone\<rparr>"
  using assms by (simp add: uninstrument_connection_def)

theorem uninstrument_connection_without_marker_witness:
  "attrs \<lparr>cursor_factory = PyClass (UserCursor 7), attrs = Map.empty, has_instance_dict = True\<rparr>
     OTEL_CURSOR_FACTORY_KEY = None
   \<and> uninstrument_connection
        \<lparr>cursor_factory = PyClass (UserCursor 7), attrs = Map.empty, has_instance_dict = True\<rparr>
      = \<lparr>cursor_factory = PyNone, attrs = Map.empty, has_instance_dict = True\<rparr>
   \<and> uninstrument_connection
        \<lparr>cursor_factory = PyClass (UserCursor 7), attrs = Map.empty, has_instance_dict = False\<rparr>
      = \<lparr>cursor_factory = PyNone, attrs = Map.empty, has_instance_dict = False\<rparr>"
proof -
  have a: "attrs \<lparr>cursor_factory = PyClass (UserCursor 7), attrs = Map.empty,
      has_instance_dict = d\<rparr> OTEL_CURSOR_FACTORY_KEY = None" for d
    by simp
  show ?thesis
    using a [of True] uninstrument_connection_without_marker [OF a [of True]]
      uninstrument_connection_without_marker [OF a [of False]]
    by simp
qed

text \<open>
  Claim C9, amended (the marker invariant). Take a connection without the marker and
  a sequence of \<open>instrument_connection\<close> and \<open>uninstrument_connection\<close> calls on it.
  The sequence raises only on a connection without an instance dictionary, where the
  first \<open>instrument_connection\<close> raises AttributeError. In the state that the sequence
  reaches otherwise: the marker present, the current \<open>cursor_factory\<close> is a traced
  factory or the value saved under the marker; the marker absent, no
  \<open>instrument_connection\<close> was called, and the connection is as it was at the start, or
  as it was but for its \<open>cursor_factory\<close>, which is \<open>None\<close>.
\<close>

theorem marker_invariant_kept_reachable:
  assumes "attrs c0 OTEL_CURSOR_FACTORY_KEY = None"
  shows "case run_calls ver calls (c0, n) of
      Inr (c, n') \<Rightarrow>
        marker_invariant_kept c0 c
        \<and> has_instance_dict c = has_instance_dict c0
        \<and> (attrs c OTEL_CURSOR_FACTORY_KEY = None \<longrightarrow> \<not> list_ex is_instrument calls)
    | Inl e \<Rightarrow>
        e = AttributeError \<and> \<not> has_instance_dict c0 \<and> list_ex is_instrument calls"
proof (induction calls rule: rev_induct)
  case Nil
  then show ?case using assms by (simp add: marker_invariant_kept_def)
next
  case (snoc x xs)
  show ?case
  proof (cases "run_calls ver xs (c0, n)")
    case (Inl e)
    then show ?thesis
      using snoc by (simp add: run_calls_append)
  next
    case (Inr st)
    obtain c n' where st: "st = (c, n')" by (cases st)
    have inv: "marker_invariant_kept c0 c"
      and dict: "has_instance_dict c = has_instance_dict c0"
      and none: "attrs c OTEL_CURSOR_FACTORY_KEY = None \<longrightarrow> \<not> list_ex is_instrument xs"
      using snoc Inr st by auto
    show ?thesis
    proof (cases x)
      case (Instrument tp)
      show ?thesis
      proof (cases "has_instance_dict c")
        case True
        obtain c' n'' where i: "instrument_connection ver c tp n' = Inr (c', n'')"
          using True by (simp add: instrument_connection_returns)
        have "run_calls ver (xs @ [x]) (c0, n) = Inr (c', n'')"
          using Inr st i Instrument by (simp add: run_calls_append)
        then show ?thesis
          using marker_kept_after_instrument [OF i, of c0] dict by auto
      next
        case False
        have "run_calls ver (xs @ [x]) (c0, n) = Inl AttributeError"
          using Inr st Instrument False
          by (simp add: run_calls_append instrument_connection_raises)
        then show ?thesis
          using False dict Instrument by simp
      qed
    next
      case Uninstrument
      have "run_calls ver (xs @ [x]) (c0, n) = Inr (uninstrument_connection c, n')"
        using Inr st Uninstrument by (simp add: run_calls_append)
      then show ?thesis
        using marker_kept_after_uninstrument [OF inv] none dict Uninstrument by auto
    qed
  qed
qed

theorem marker_invariant_kept_reachable_witness:
  "attrs \<lparr>cursor_factory = PyClass (UserCursor 7), attrs = Map.empty, has_instance_dict = True\<rparr>
     OTEL_CURSOR_FACTORY_KEY = None
   \<and> run_calls ''0.1'' [Instrument None, Uninstrument]
        (\<lparr>cursor_factory = PyClass (UserCursor 7), attrs = Map.empty,
          has_instance_dict = True\<rparr>, 0)
      = Inr (\<lparr>cursor_factory = PyClass (UserCursor 7),
              attrs = [OTEL_CURSOR_FACTORY_KEY \<mapsto> PyClass (UserCursor 7)],
              has_instance_dict = True\<rparr>, 1)
   \<and> marker_invariant_kept
        \<lparr>cursor_factory = PyClass (UserCursor 7), attrs = Map.empty, has_instance_dict = True\<rparr>
        \<lparr>cursor_factory = PyClass (UserCursor 7),
         attrs = [OTEL_CURSOR_FACTORY_KEY \<mapsto> PyClass (UserCursor 7)],
         has_instance_dict = True\<rparr>
   \<and> run_calls ''0.1'' [Uninstrument, Instrument None]
        (\<lparr>cursor_factory = PyClass (UserCursor 7), attrs = Map.empty,
          has_instance_dict = False\<rparr>, 0)
      = Inl AttributeError"
proof -
  let ?c0 = "\<lparr>cursor_factory = PyClass (UserCursor 7), attrs = Map.empty,
    has_instance_dict = True\<rparr>"
  let ?c1 = "\<lparr>cursor_factory = PyClass (UserCursor 7),
    attrs = [OTEL_CURSOR_FACTORY_KEY \<mapsto> PyClass (UserCursor 7)], has_instance_dict = True\<rparr>"
  have a: "attrs ?c0 OTEL_CURSOR_FACTORY_KEY = None" by simp
  have r: "run_calls ''0.1'' [Instrument None, Uninstrument] (?c0, 0) = Inr (?c1, 1)"
    by (simp add: instrument_connection_returns uninstrument_connection_def)
  have e: "run_calls ''0.1'' [Uninstrument, Instrument None]
      (\<lparr>cursor_factory = PyClass (UserCursor 7), attrs = Map.empty,
        has_instance_dict = False\<rparr>, 0) = Inl AttributeError"
    by (simp add: instrument_connection_raises uninstrument_connection_def)
  have "marker_invariant_kept ?c0 ?c1"
    using marker_invariant_kept_reachable
        [OF a, where ver = "''0.1''" and calls = "[Instrument None, Uninstrument]" and n = 0]
    unfolding r by simp
  then show ?thesis
    using a r e by simp
qed

text \<open>
  The claim C9 as it is written fails in both halves. After \<open>instrument_connection\<close>
  and \<open>uninstrument_connection\<close> the marker is still present, and the current
  \<open>cursor_factory\<close> is the caller's class again, not a traced factory. After
  \<open>uninstrument_connection\<close> alone the marker is absent, and the connection has lost
  its \<open>cursor_factory\<close>.
\<close>

theorem marker_invariant_counterexample:
  "run_calls ''0.1'' [Instrument None, Uninstrument]
      (\<lparr>cursor_factory = PyClass (UserCursor 7), attrs = Map.empty,
        has_instance_dict = True\<rparr>, 0)
    = Inr (\<lparr>cursor_factory = PyClass (UserCursor 7),
            attrs = [OTEL_CURSOR_FACTORY_KEY \<mapsto> PyClass (UserCursor 7)],
            has_instance_dict = True\<rparr>, 1)
   \<and> \<not> marker_invariant
        \<lparr>cursor_factory = PyClass (UserCursor 7), attrs = Map.empty, has_instance_dict = True\<rparr>
        \<lparr>cursor_factory = PyClass (UserCursor 7),
         attrs = [OTEL_CURSOR_FACTORY_KEY \<mapsto> PyClass (UserCursor 7)],
         has_instance_dict = True\<rparr>
   \<and> run_calls ''0.1'' [Uninstrument]
      (\<lparr>cursor_factory = PyClass (UserCursor 7), attrs = Map.empty,
        has_instance_dict = True\<rparr>, 0)
    = Inr (\<lparr>cursor_factory = PyNone, attrs = Map.empty, has_instance_dict = True\<rparr>, 0)
   \<and> \<not> marker_invariant
        \<lparr>cursor_factory = PyClass (UserCursor 7), attrs = Map.empty, has_instance_dict = True\<rparr>
        \<lparr>cursor_factory = PyNone, attrs = Map.empty, has_instance_dict = True\<rparr>"
  by (simp add: instrument_connection_returns uninstrument_connection_def marker_invariant_def)

subsection \<open>The wrapped connect\<close>

text \<open>
  Claim C5 (the base of the traced factory). When \<open>connect\<close> is called with a cursor
  class as \<open>cursor_factory\<close>, the connect function of the library receives the other
  arguments unchanged and, as \<open>cursor_factory\<close>, a new traced factory in place of that
  class; the class is the base of the traced factory, whose \<open>execute\<close>, \<open>executemany\<close>
  and \<open>callproc\<close> run \<open>traced_execution\<close> around the implementation that the class
  provides. Without a \<open>cursor_factory\<close> argument the base is the cursor class of the
  library.
\<close>

theorem wrapped_connection_base_factory:
  assumes "kwargs ''cursor_factory'' = Some (PyClass base)
    \<or> (kwargs ''cursor_factory'' = None \<and> base = PgCursor)"
  shows "wrapped_connection ver self connect_method get_connection_attributes args kwargs (n, s) =
      (case connect_method args
              (kwargs(''cursor_factory'' \<mapsto>
                 PyClass (TracedCursorFactory n base (CursorTracer self)))) s of
         Inl e \<Rightarrow> Inl e
       | Inr (connection, s') \<Rightarrow>
           (case get_connection_attributes self connection s' of
              Inl e \<Rightarrow> Inl e
            | Inr s'' \<Rightarrow> Inr (connection, Suc n, s'')))
    \<and> TracedCursorFactory n base (CursorTracer self) \<noteq> base
    \<and> resolve_method (TracedCursorFactory n base (CursorTracer self)) Execute
        = TracedExecution (CursorTracer self) (resolve_method base Execute)
    \<and> resolve_method (TracedCursorFactory n base (CursorTracer self)) Executemany
        = TracedExecution (CursorTracer self) (resolve_method base Executemany)
    \<and> resolve_method (TracedCursorFactory n base (CursorTracer self)) Callproc
        = TracedExecution (CursorTracer self) (resolve_method base Callproc)"
proof -
  have "wrapped_connection ver self connect_method get_connection_attributes args kwargs (n, s) =
      (case connect_method args
              (kwargs(''cursor_factory'' \<mapsto>
                 PyClass (TracedCursorFactory n base (CursorTracer self)))) s of
         Inl e \<Rightarrow> Inl e
       | Inr (connection, s') \<Rightarrow>
           (case get_connection_attributes self connection s' of
              Inl e \<Rightarrow> Inl e
            | Inr s'' \<Rightarrow> Inr (connection, Suc n, s'')))"
    using assms
    by (auto simp: wrapped_connection_def new_cursor_factory_base new_cursor_factory_no_base)
  then show ?thesis
    by (simp add: traced_factory_not_base)
qed

theorem wrapped_connection_base_factory_witness:
  "wrapped_connection ''0.1'' (DatabaseApiIntegration ''n'' ''postgresql'' [] ''0.1'' None)
      (\<lambda>args kwargs s. Inr (kwargs ''cursor_factory'', s)) (\<lambda>self connection s. Inr s)
      [] [''cursor_factory'' \<mapsto> PyClass (UserCursor 7)] (0, ())
    = Inr (Some (PyClass (TracedCursorFactory 0 (UserCursor 7)
              (CursorTracer (DatabaseApiIntegration ''n'' ''postgresql'' [] ''0.1'' None)))), 1, ())
   \<and> resolve_method (TracedCursorFactory 0 (UserCursor 7)
         (CursorTracer (DatabaseApiIntegration ''n'' ''postgresql'' [] ''0.1'' None))) Execute
      = TracedExecution (CursorTracer (DatabaseApiIntegration ''n'' ''postgresql'' [] ''0.1'' None))
          (Defined (UserCursor 7) Execute)
   \<and> wrapped_connection ''0.1'' (DatabaseApiIntegration ''n'' ''postgresql'' [] ''0.1'' None)
      (\<lambda>args kwargs s. Inr (kwargs ''cursor_factory'', s)) (\<lambda>self connection s. Inr s)
      [] Map.empty (0, ())
    = Inr (Some (PyClass (TracedCursorFactory 0 PgCursor
              (CursorTracer (DatabaseApiIntegration ''n'' ''postgresql'' [] ''0.1'' None)))), 1, ())"
proof -
  let ?self = "DatabaseApiIntegration ''n'' ''postgresql'' [] ''0.1'' None"
  let ?cm = "\<lambda>(args :: pyval list) (kwargs :: string \<rightharpoonup> pyval) (s :: unit).
    (Inr (kwargs ''cursor_factory'', s) :: exn + (pyval option \<times> unit))"
  let ?gca = "\<lambda>(self :: db_api) (connection :: pyval option) (s :: unit). (Inr s :: exn + unit)"
  have a: "[''cursor_factory'' \<mapsto> PyClass (UserCursor 7)] ''cursor_factory'' = Some (PyClass (UserCursor 7))
    \<or> ([''cursor_factory'' \<mapsto> PyClass (UserCursor 7)] ''cursor_factory'' = None \<and> UserCursor 7 = PgCursor)"
    by simp
  have b: "(Map.empty :: string \<rightharpoonup> pyval) ''cursor_factory'' = Some (PyClass PgCursor)
    \<or> ((Map.empty :: string \<rightharpoonup> pyval) ''cursor_factory'' = None \<and> PgCursor = PgCursor)"
    by simp
  show ?thesis
    using wrapped_connection_base_factory
      [where connect_method = ?cm and get_connection_attributes = ?gca and ver = "''0.1''"
         and self = ?self and args = "[]" and n = 0 and s = "()" and base = "UserCursor 7"
         and kwargs = "[''cursor_factory'' \<mapsto> PyClass (UserCursor 7)]", OF a]
      wrapped_connection_base_factory
      [where connect_method = ?cm and get_connection_attributes = ?gca and ver = "''0.1''"
         and self = ?self and args = "[]" and n = 0 and s = "()" and base = PgCursor
         and kwargs = Map.empty, OF b]
    by simp
qed

end
